theory Spec2Isabelle
  imports Complex_Main
begin

section \<open>Parameter views of OpenSCM (openscm/core/views.py)\<close>

text \<open>
  The development embeds the view classes of \<^verbatim>\<open>openscm/core/views.py\<close>:
  \<^verbatim>\<open>ParameterView\<close>, \<^verbatim>\<open>ScalarView\<close>, \<^verbatim>\<open>WritableScalarView\<close>,
  \<^verbatim>\<open>TimeseriesView\<close>, \<^verbatim>\<open>WritableTimeseriesView\<close>, \<^verbatim>\<open>GenericView\<close>,
  \<^verbatim>\<open>WritableGenericView\<close> and the array proxy \<^verbatim>\<open>_Timeseries\<close>.

  Floating point numbers are idealised as \<^typ>\<open>real\<close>, time points as \<^typ>\<open>int\<close>. A
  one-dimensional NumPy array is a list with its dtype (\<open>ndarray\<close> below); the data a
  timeseries parameter stores, which is always the result of a conversion, is a float
  array and written as a \<^typ>\<open>real list\<close>. A Python exception is a value
  \<open>Inl e\<close> of the sum type \<open>error + 'a\<close>. An operation that mutates an object returns the
  new state next to its result, also when it raises: what was mutated before the
  \<^verbatim>\<open>raise\<close> stays mutated.
\<close>

subsection \<open>Exceptions\<close>

text \<open>
  The exceptions the views raise or let through. \<open>DanglingReference\<close> is not a Python
  exception: a view of the model names its parameter by a path, and the model answers a
  path that leads to no node with it. A Python reference cannot dangle.
\<close>

datatype error =
    ParameterEmptyError
  | TimeseriesPointsValuesMismatchError
  | NotImplementedError
  | AttributeError
  | TypeError
  | ValueError
  | IndexError
  | DimensionalityError
  | InsufficientDataError
  | DanglingReference

subsection \<open>Unit conversion\<close>

text \<open>
  Modelled from the spec: the class \<^verbatim>\<open>UnitConverter\<close> of \<^verbatim>\<open>openscm/core/units.py\<close>,
  which is not among the source files. The spec (section 4.2): constructed from a source
  unit and a target unit, it computes a single multiplicative factor and an additive offset
  from an external unit registry; \<^verbatim>\<open>convert_from\<close> takes a value in the source unit to
  the target unit, \<^verbatim>\<open>convert_to\<close> is the inverse; construction fails with a
  dimensionality error when the units are not commensurable. The registry is a
  parameter: it answers a pair of units with the factor and the offset, or with \<open>None\<close>
  when they are incommensurable. (For a factor \<open>0\<close>, which no pair of units has, the
  quotient in \<open>UnitConverter_convert_to\<close> is HOL's \<open>x / 0 = 0\<close>.)
\<close>

type_synonym registry = "string \<Rightarrow> string \<Rightarrow> (real \<times> real) option"

record UnitConverter =
  source :: string
  target :: string
  scaling :: real
  offset :: real

definition UnitConverter_init :: "registry \<Rightarrow> string \<Rightarrow> string \<Rightarrow> error + UnitConverter" where
  "UnitConverter_init reg src tgt =
     (case reg src tgt of
        None \<Rightarrow> Inl DimensionalityError
      | Some (f, c) \<Rightarrow> Inr \<lparr>source = src, target = tgt, scaling = f, offset = c\<rparr>)"

definition UnitConverter_convert_from :: "UnitConverter \<Rightarrow> real \<Rightarrow> real" where
  "UnitConverter_convert_from uc v = v * scaling uc + offset uc"

definition UnitConverter_convert_to :: "UnitConverter \<Rightarrow> real \<Rightarrow> real" where
  "UnitConverter_convert_to uc v = (v - offset uc) / scaling uc"

subsection \<open>The parameter tree\<close>

text \<open>
  Modelled from the spec: the class \<^verbatim>\<open>_Parameter\<close> of \<^verbatim>\<open>openscm/core/parameters.py\<close>,
  which is not among the source files. The views use it as a plain object with the
  attributes \<^verbatim>\<open>children\<close>, \<^verbatim>\<open>data\<close>, \<^verbatim>\<open>has_been_written_to\<close>, \<^verbatim>\<open>info.unit\<close>,
  \<^verbatim>\<open>time_points\<close> and \<^verbatim>\<open>version\<close> (spec, section 3). \<^verbatim>\<open>children\<close> is a dictionary
  from names to nodes, read only through its truth value and \<^verbatim>\<open>.values()\<close>, that is in
  insertion order: here the list of the child nodes, each carrying its name. \<^verbatim>\<open>data\<close> is
  \<open>None\<close> until something is stored; its type \<open>'d\<close> is \<^typ>\<open>real\<close> for a scalar
  parameter, \<^typ>\<open>real list\<close> for a timeseries and anything for a generic parameter.

  The nodes are shared mutable objects: every view holds a reference to its node, and a
  write through one view is seen through every other. The model keeps one tree as the
  state; a reference to a node is its \<open>path\<close>, the positions of the children to descend
  into from the root. Nodes are never deleted or moved (spec, section 3), so a path
  identifies a node for good.
\<close>

datatype 'd Parameter =
  Parameter
    (name : string)
    (info_unit : string)
    (data : "'d option")
    (version : int)
    (has_been_written_to : bool)
    (time_points : "int list")
    (children : "'d Parameter list")

type_synonym path = "nat list"

fun set_data :: "'d option \<Rightarrow> 'd Parameter \<Rightarrow> 'd Parameter" where
  "set_data d (Parameter n u _ v w t cs) = Parameter n u d v w t cs"

fun set_version :: "int \<Rightarrow> 'd Parameter \<Rightarrow> 'd Parameter" where
  "set_version v (Parameter n u d _ w t cs) = Parameter n u d v w t cs"

fun set_children :: "'d Parameter list \<Rightarrow> 'd Parameter \<Rightarrow> 'd Parameter" where
  "set_children cs (Parameter n u d v w t _) = Parameter n u d v w t cs"

fun lookup :: "'d Parameter \<Rightarrow> path \<Rightarrow> 'd Parameter option" where
  "lookup p [] = Some p"
| "lookup p (i # is) =
     (if i < length (children p) then lookup (children p ! i) is else None)"

fun update_at :: "('d Parameter \<Rightarrow> 'd Parameter) \<Rightarrow> path \<Rightarrow> 'd Parameter \<Rightarrow> 'd Parameter" where
  "update_at f [] p = f p"
| "update_at f (i # is) p =
     (if i < length (children p)
      then set_children ((children p)[i := update_at f is (children p ! i)]) p
      else p)"


subsection \<open>ParameterView\<close>

text \<open>
  \<^verbatim>\<open>ParameterView.empty\<close>: \<^verbatim>\<open>return not self._parameter.has_been_written_to\<close>.
\<close>

definition ParameterView_empty :: "'d Parameter \<Rightarrow> bool" where
  "ParameterView_empty p = (\<not> has_been_written_to p)"

subsection \<open>ScalarView and WritableScalarView\<close>

text \<open>
  A scalar view holds its parameter, its unit converter and, when the parameter had
  children at construction, the views of the leaf descendants. \<open>sv_child_data_views\<close> is
  \<open>None\<close> when the constructor did not set the attribute \<^verbatim>\<open>_child_data_views\<close>
  (reading it then raises \<^verbatim>\<open>AttributeError\<close>).
\<close>

datatype ScalarView =
  ScalarView
    (sv_parameter : path)
    (sv_unit_converter : UnitConverter)
    (sv_child_data_views : "ScalarView list option")

text \<open>
  \<^verbatim>\<open>get_data_views_for_children_or_parameter\<close> of \<^verbatim>\<open>ScalarView.__init__\<close>: for a node
  with children the concatenation of the results for the children, for a leaf the one
  view \<^verbatim>\<open>ScalarView(parameter, self._unit_converter.target)\<close>, whose constructor
  builds \<^verbatim>\<open>UnitConverter(parameter.info.unit, unit)\<close>. The second function is the
  \<^verbatim>\<open>sum(..., [])\<close> over \<^verbatim>\<open>parameter.children.values()\<close>, from position \<open>i\<close> on.
\<close>

fun sv_get_data_views :: "registry \<Rightarrow> string \<Rightarrow> path \<Rightarrow> 'd Parameter \<Rightarrow> error + ScalarView list"
  and sv_get_data_views_list ::
    "registry \<Rightarrow> string \<Rightarrow> path \<Rightarrow> nat \<Rightarrow> 'd Parameter list \<Rightarrow> error + ScalarView list" where
  "sv_get_data_views reg tgt pth (Parameter n u d v w t cs) =
     (if cs \<noteq> [] then sv_get_data_views_list reg tgt pth 0 cs
      else (case UnitConverter_init reg u tgt of
              Inl e \<Rightarrow> Inl e
            | Inr uc \<Rightarrow> Inr [ScalarView pth uc None]))"
| "sv_get_data_views_list reg tgt pth i [] = Inr []"
| "sv_get_data_views_list reg tgt pth i (c # cs) =
     (case sv_get_data_views reg tgt (pth @ [i]) c of
        Inl e \<Rightarrow> Inl e
      | Inr vs \<Rightarrow>
          (case sv_get_data_views_list reg tgt pth (Suc i) cs of
             Inl e \<Rightarrow> Inl e
           | Inr ws \<Rightarrow> Inr (vs @ ws)))"

text \<open>\<^verbatim>\<open>ScalarView.__init__(parameter, unit)\<close>, also the constructor of the writable view.\<close>

definition ScalarView_init :: "registry \<Rightarrow> 'd Parameter \<Rightarrow> path \<Rightarrow> string \<Rightarrow> error + ScalarView" where
  "ScalarView_init reg store pth u =
     (case lookup store pth of
        None \<Rightarrow> Inl DanglingReference
      | Some p \<Rightarrow>
          (case UnitConverter_init reg (info_unit p) u of
             Inl e \<Rightarrow> Inl e
           | Inr uc \<Rightarrow>
               if children p \<noteq> []
               then (case sv_get_data_views reg (target uc) pth p of
                       Inl e \<Rightarrow> Inl e
                     | Inr vs \<Rightarrow> Inr (ScalarView pth uc (Some vs)))
               else Inr (ScalarView pth uc None)))"

text \<open>
  \<^verbatim>\<open>ScalarView.value\<close> (getter): with children, \<^verbatim>\<open>sum(v.value for v in self._child_data_views)\<close>,
  which starts from \<open>0\<close>, adds from left to right and stops at the first child that
  raises; else \<^verbatim>\<open>ParameterEmptyError\<close> when \<^verbatim>\<open>self.empty\<close>; else the converted
  \<^verbatim>\<open>data\<close>. The conversion of a \<^verbatim>\<open>data\<close> that is still \<open>None\<close> is arithmetic on
  \<open>None\<close>, a \<^verbatim>\<open>TypeError\<close>.
\<close>

fun ScalarView_value :: "real Parameter \<Rightarrow> ScalarView \<Rightarrow> error + real"
  and sum_values :: "real Parameter \<Rightarrow> real \<Rightarrow> ScalarView list \<Rightarrow> error + real" where
  "ScalarView_value store (ScalarView pth uc cdv) =
     (case lookup store pth of
        None \<Rightarrow> Inl DanglingReference
      | Some p \<Rightarrow>
          if children p \<noteq> []
          then (case cdv of None \<Rightarrow> Inl AttributeError | Some vs \<Rightarrow> sum_values store 0 vs)
          else if ParameterView_empty p then Inl ParameterEmptyError
          else (case data p of None \<Rightarrow> Inl TypeError | Some d \<Rightarrow> Inr (UnitConverter_convert_from uc d)))"
| "sum_values store acc [] = Inr acc"
| "sum_values store acc (v # vs) =
     (case ScalarView_value store v of
        Inl e \<Rightarrow> Inl e
      | Inr x \<Rightarrow> sum_values store (acc + x) vs)"


text \<open>
  \<^verbatim>\<open>WritableScalarView.value\<close> (setter), the whole body:
  \<^verbatim>\<open>self._parameter.data = self._unit_converter.convert_to(v)\<close>.
\<close>

definition WritableScalarView_value_set ::
    "real Parameter \<Rightarrow> ScalarView \<Rightarrow> real \<Rightarrow> (error + unit) \<times> real Parameter" where
  "WritableScalarView_value_set store view v =
     (case lookup store (sv_parameter view) of
        None \<Rightarrow> (Inl DanglingReference, store)
      | Some p \<Rightarrow>
          (Inr (),
           update_at (set_data (Some (UnitConverter_convert_to (sv_unit_converter view) v)))
             (sv_parameter view) store))"

subsection \<open>GenericView and WritableGenericView\<close>

text \<open>
  A generic view holds its parameter only. A generic value is any Python object, \<open>None\<close>
  included: the getter returns \<^verbatim>\<open>self._parameter.data\<close> as it is.
\<close>

datatype GenericView = GenericView (gv_parameter : path)

definition GenericView_value :: "'g Parameter \<Rightarrow> GenericView \<Rightarrow> error + 'g option" where
  "GenericView_value store view =
     (case lookup store (gv_parameter view) of
        None \<Rightarrow> Inl DanglingReference
      | Some p \<Rightarrow> if ParameterView_empty p then Inl ParameterEmptyError else Inr (data p))"


text \<open>\<^verbatim>\<open>WritableGenericView.value\<close> (setter): \<^verbatim>\<open>self._parameter.data = v\<close>.\<close>

definition WritableGenericView_value_set ::
    "'g Parameter \<Rightarrow> GenericView \<Rightarrow> 'g option \<Rightarrow> (error + unit) \<times> 'g Parameter" where
  "WritableGenericView_value_set store view v =
     (case lookup store (gv_parameter view) of
        None \<Rightarrow> (Inl DanglingReference, store)
      | Some p \<Rightarrow> (Inr (), update_at (set_data v) (gv_parameter view) store))"

subsection \<open>Timeseries conversion\<close>

text \<open>
  Modelled from the spec: the class \<^verbatim>\<open>TimeseriesConverter\<close> of
  \<^verbatim>\<open>openscm/core/time.py\<close>, which is not among the source files. The spec (section 4.3):
  it is constructed with the source time points, the target time points, a timeseries
  type that holds for both grids, an interpolation type and an extrapolation type out of
  NONE, CONSTANT and LINEAR. \<^verbatim>\<open>convert_from\<close> maps values on the source grid to values
  on the target grid and fails with an insufficient-data error when the array is too
  short, and when a target time point lies outside the span of the source time points
  while the extrapolation type is NONE. \<^verbatim>\<open>convert_to\<close> is the way back (the tests call
  the one routine behind both, \<^verbatim>\<open>_convert(values, source, target)\<close>).
  \<^verbatim>\<open>target_length\<close> is the number of target time points. The resampling arithmetic
  itself is a parameter \<open>K\<close>.

  How short is too short is taken from the repository's test and not from the spec's
  sentence ("fewer than 2 points (point series) or fewer than 1 interval (average
  series)"): \<^verbatim>\<open>test_short_data\<close> requires the error for the arrays \<^verbatim>\<open>[]\<close>, \<^verbatim>\<open>[0]\<close>
  and \<^verbatim>\<open>[0, 1]\<close> on every combination of grids and types, and the tests of
  \<^verbatim>\<open>test_core.py\<close> convert arrays of three values of either type. So an array is too
  short when it has fewer than 3 values. \<open>claimed_too_short\<close> is the spec's sentence, kept
  for comparison.
\<close>

datatype ParameterType = SCALAR | POINT_TIMESERIES | AVERAGE_TIMESERIES | GENERIC

datatype InterpolationType = InterpolationType_LINEAR

datatype ExtrapolationType =
  ExtrapolationType_NONE | ExtrapolationType_CONSTANT | ExtrapolationType_LINEAR

record TimeseriesConverter =
  tc_source :: "int list"
  tc_target :: "int list"
  tc_timeseries_type :: ParameterType
  tc_interpolation_type :: InterpolationType
  tc_extrapolation_type :: ExtrapolationType

type_synonym resampler =
  "TimeseriesConverter \<Rightarrow> int list \<Rightarrow> int list \<Rightarrow> real list \<Rightarrow> real list"

definition too_short :: "real list \<Rightarrow> bool" where
  "too_short vs = (length vs < 3)"


definition outside_source :: "int list \<Rightarrow> int list \<Rightarrow> bool" where
  "outside_source src tgt =
     (\<exists>t \<in> set tgt. (\<forall>s \<in> set src. t < s) \<or> (\<forall>s \<in> set src. s < t))"

definition TimeseriesConverter_convert ::
    "resampler \<Rightarrow> TimeseriesConverter \<Rightarrow> real list \<Rightarrow> int list \<Rightarrow> int list \<Rightarrow> error + real list" where
  "TimeseriesConverter_convert K tc vs src tgt =
     (if too_short vs then Inl InsufficientDataError
      else if tc_extrapolation_type tc = ExtrapolationType_NONE \<and> outside_source src tgt
      then Inl InsufficientDataError
      else Inr (K tc src tgt vs))"

definition TimeseriesConverter_convert_from ::
    "resampler \<Rightarrow> TimeseriesConverter \<Rightarrow> real list \<Rightarrow> error + real list" where
  "TimeseriesConverter_convert_from K tc vs =
     TimeseriesConverter_convert K tc vs (tc_source tc) (tc_target tc)"

definition TimeseriesConverter_convert_to ::
    "resampler \<Rightarrow> TimeseriesConverter \<Rightarrow> real list \<Rightarrow> error + real list" where
  "TimeseriesConverter_convert_to K tc vs =
     TimeseriesConverter_convert K tc vs (tc_target tc) (tc_source tc)"

definition target_length :: "TimeseriesConverter \<Rightarrow> nat" where
  "target_length tc = length (tc_target tc)"

subsection \<open>NumPy operations on one-dimensional arrays\<close>

text \<open>
  An array has a dtype: \<^verbatim>\<open>np.asarray\<close> of integers is an integer array, of floats a
  float array. \<open>as_float\<close> is the array's values as floats, which is what arithmetic with a
  float (a unit conversion) works on.

  \<^verbatim>\<open>np.copyto(dst, src)\<close> overwrites \<open>dst\<close> in place and keeps the dtype of \<open>dst\<close>. Its
  casting rule is \<^verbatim>\<open>same_kind\<close>: floats are not written into an integer array, a
  \<^verbatim>\<open>TypeError\<close>, checked first. \<open>src\<close> is broadcast to the shape of \<open>dst\<close>: an array
  of the same length or of one element, anything else is a \<^verbatim>\<open>ValueError\<close>. Elementwise
  addition broadcasts a one-element array in the same way, and its result is an integer
  array only for two integer arrays.

  \<^verbatim>\<open>a[key] = val\<close> with an integer key counts a negative key from the end and raises
  \<^verbatim>\<open>IndexError\<close> out of range; a float assigned into an integer array is truncated
  towards zero.
\<close>

datatype ndarray = IntArray "int list" | FloatArray "real list"

fun array_len :: "ndarray \<Rightarrow> nat" where
  "array_len (IntArray xs) = length xs"
| "array_len (FloatArray xs) = length xs"

fun is_float :: "ndarray \<Rightarrow> bool" where
  "is_float (IntArray xs) = False"
| "is_float (FloatArray xs) = True"

fun as_float :: "ndarray \<Rightarrow> real list" where
  "as_float (IntArray xs) = map real_of_int xs"
| "as_float (FloatArray xs) = xs"

definition broadcast_to :: "nat \<Rightarrow> 'a list \<Rightarrow> error + 'a list" where
  "broadcast_to n src =
     (if length src = n then Inr src
      else if length src = 1 then Inr (replicate n (hd src))
      else Inl ValueError)"

fun copyto :: "ndarray \<Rightarrow> ndarray \<Rightarrow> error + ndarray" where
  "copyto (IntArray dst) (FloatArray src) = Inl TypeError"
| "copyto (IntArray dst) (IntArray src) =
     (case broadcast_to (length dst) src of Inl e \<Rightarrow> Inl e | Inr xs \<Rightarrow> Inr (IntArray xs))"
| "copyto (FloatArray dst) src =
     (case broadcast_to (length dst) (as_float src) of
        Inl e \<Rightarrow> Inl e
      | Inr xs \<Rightarrow> Inr (FloatArray xs))"

definition broadcast2 :: "('a \<Rightarrow> 'a \<Rightarrow> 'a) \<Rightarrow> 'a list \<Rightarrow> 'a list \<Rightarrow> error + 'a list" where
  "broadcast2 f a b =
     (if length a = length b then Inr (map2 f a b)
      else if length a = 1 then Inr (map (f (hd a)) b)
      else if length b = 1 then Inr (map (\<lambda>x. f x (hd b)) a)
      else Inl ValueError)"

fun broadcast_add :: "ndarray \<Rightarrow> ndarray \<Rightarrow> error + ndarray" where
  "broadcast_add (IntArray a) (IntArray b) =
     (case broadcast2 (+) a b of Inl e \<Rightarrow> Inl e | Inr xs \<Rightarrow> Inr (IntArray xs))"
| "broadcast_add a b =
     (case broadcast2 (+) (as_float a) (as_float b) of
        Inl e \<Rightarrow> Inl e
      | Inr xs \<Rightarrow> Inr (FloatArray xs))"

definition index :: "ndarray \<Rightarrow> int \<Rightarrow> error + nat" where
  "index a key =
     (let n = int (array_len a); j = (if key < 0 then n + key else key)
      in if 0 \<le> j \<and> j < n then Inr (nat j) else Inl IndexError)"

definition truncate :: "real \<Rightarrow> int" where
  "truncate x = (if 0 \<le> x then \<lfloor>x\<rfloor> else \<lceil>x\<rceil>)"

fun array_set :: "ndarray \<Rightarrow> nat \<Rightarrow> real \<Rightarrow> ndarray" where
  "array_set (IntArray xs) j val = IntArray (xs[j := truncate val])"
| "array_set (FloatArray xs) j val = FloatArray (xs[j := val])"

subsection \<open>TimeseriesView and WritableTimeseriesView\<close>

text \<open>
  A timeseries view holds, next to its parameter and converters, a cache: \<^verbatim>\<open>_data\<close> (the
  converted array, \<open>None\<close> at first), \<^verbatim>\<open>_version\<close> (the parameter's version at the last
  read or write; the constructor does not set it, \<open>None\<close> is the unset attribute) and
  \<^verbatim>\<open>_timeseries\<close> (the proxy object handed out by \<^verbatim>\<open>values\<close>, \<open>None\<close> at first). The
  proxy is \<^verbatim>\<open>_Timeseries(self._data, self)\<close>, and \<^verbatim>\<open>np.asarray\<close> of an array is that
  array: the proxy's \<^verbatim>\<open>_ndarray\<close> is the view's \<^verbatim>\<open>_data\<close>, one object, updated in place by
  \<^verbatim>\<open>np.copyto\<close>. So \<open>tv_timeseries\<close> only records whether the proxy exists.
  A cache that \<^verbatim>\<open>_read\<close> filled is a float array; a cache that the setter of the
  writable view created is a copy of what was assigned and has its dtype.
  \<open>tv_class\<close> is the class of the object, which decides what \<^verbatim>\<open>_write\<close> does.
\<close>

datatype ViewClass = TimeseriesViewClass | WritableTimeseriesViewClass

datatype TimeseriesView =
  TimeseriesView
    (tv_class : ViewClass)
    (tv_parameter : path)
    (tv_unit_converter : UnitConverter)
    (tv_timeseries_converter : TimeseriesConverter)
    (tv_data : "ndarray option")
    (tv_version : "int option")
    (tv_timeseries : bool)
    (tv_child_data_views : "TimeseriesView list option")

fun set_cache :: "ndarray option \<Rightarrow> int option \<Rightarrow> TimeseriesView \<Rightarrow> TimeseriesView" where
  "set_cache d ver (TimeseriesView cls pth uc tc _ _ ts cdv) =
     TimeseriesView cls pth uc tc d ver ts cdv"

fun set_timeseries :: "bool \<Rightarrow> TimeseriesView \<Rightarrow> TimeseriesView" where
  "set_timeseries ts (TimeseriesView cls pth uc tc d ver _ cdv) =
     TimeseriesView cls pth uc tc d ver ts cdv"

text \<open>
  \<^verbatim>\<open>get_data_views_for_children_or_parameter\<close> of \<^verbatim>\<open>TimeseriesView.__init__\<close>: a leaf
  gets a read-only \<^verbatim>\<open>TimeseriesView\<close> in the unit and on the time points of the view
  under construction.
\<close>

fun tv_get_data_views ::
    "registry \<Rightarrow> string \<Rightarrow> int list \<Rightarrow> ParameterType \<Rightarrow> InterpolationType \<Rightarrow> ExtrapolationType
      \<Rightarrow> path \<Rightarrow> 'd Parameter \<Rightarrow> error + TimeseriesView list"
  and tv_get_data_views_list ::
    "registry \<Rightarrow> string \<Rightarrow> int list \<Rightarrow> ParameterType \<Rightarrow> InterpolationType \<Rightarrow> ExtrapolationType
      \<Rightarrow> path \<Rightarrow> nat \<Rightarrow> 'd Parameter list \<Rightarrow> error + TimeseriesView list" where
  "tv_get_data_views reg tgt tps ty it et pth (Parameter n u d v w t cs) =
     (if cs \<noteq> [] then tv_get_data_views_list reg tgt tps ty it et pth 0 cs
      else (case UnitConverter_init reg u tgt of
              Inl e \<Rightarrow> Inl e
            | Inr uc \<Rightarrow>
                Inr [TimeseriesView TimeseriesViewClass pth uc
                       \<lparr>tc_source = t, tc_target = tps, tc_timeseries_type = ty,
                        tc_interpolation_type = it, tc_extrapolation_type = et\<rparr>
                       None None False None]))"
| "tv_get_data_views_list reg tgt tps ty it et pth i [] = Inr []"
| "tv_get_data_views_list reg tgt tps ty it et pth i (c # cs) =
     (case tv_get_data_views reg tgt tps ty it et (pth @ [i]) c of
        Inl e \<Rightarrow> Inl e
      | Inr vs \<Rightarrow>
          (case tv_get_data_views_list reg tgt tps ty it et pth (Suc i) cs of
             Inl e \<Rightarrow> Inl e
           | Inr ws \<Rightarrow> Inr (vs @ ws)))"

text \<open>
  \<^verbatim>\<open>TimeseriesView.__init__\<close>, inherited by the writable view; \<open>cls\<close> is the class that
  is instantiated.
\<close>

definition TimeseriesView_init ::
    "registry \<Rightarrow> ViewClass \<Rightarrow> 'd Parameter \<Rightarrow> path \<Rightarrow> string \<Rightarrow> int list \<Rightarrow> ParameterType
      \<Rightarrow> InterpolationType \<Rightarrow> ExtrapolationType \<Rightarrow> error + TimeseriesView" where
  "TimeseriesView_init reg cls store pth u tps ty it et =
     (case lookup store pth of
        None \<Rightarrow> Inl DanglingReference
      | Some p \<Rightarrow>
          (case UnitConverter_init reg (info_unit p) u of
             Inl e \<Rightarrow> Inl e
           | Inr uc \<Rightarrow>
               (let tc = \<lparr>tc_source = time_points p, tc_target = tps, tc_timeseries_type = ty,
                          tc_interpolation_type = it, tc_extrapolation_type = et\<rparr>
                in if children p \<noteq> []
                   then (case tv_get_data_views reg (target uc) (tc_target tc) ty it et pth p of
                           Inl e \<Rightarrow> Inl e
                         | Inr vs \<Rightarrow> Inr (TimeseriesView cls pth uc tc None None False (Some vs)))
                   else Inr (TimeseriesView cls pth uc tc None None False None))))"


text \<open>
  \<^verbatim>\<open>TimeseriesView._get_values\<close>, \<^verbatim>\<open>TimeseriesView._read\<close> and the getter
  \<^verbatim>\<open>TimeseriesView.values\<close>. They change the view's cache, and with child views the
  caches of the children, so each returns the updated view next to its result; the getter's
  result is the array the returned proxy holds at that moment.

  \<^verbatim>\<open>_get_values\<close> with children is \<^verbatim>\<open>np.sum(v.values for v in self._child_data_views)\<close>.
  NumPy hands a generator to Python's \<^verbatim>\<open>sum\<close>: it starts from the integer \<open>0\<close> (the
  accumulator \<open>None\<close> below) and adds the proxies from left to right. \<^verbatim>\<open>0 + proxy\<close> is
  the proxy's \<^verbatim>\<open>__radd__\<close>, which adds to \<^verbatim>\<open>_ndarray\<close> as it is; \<^verbatim>\<open>array + proxy\<close>
  goes through \<^verbatim>\<open>__array_ufunc__\<close>, which first calls the proxy's \<^verbatim>\<open>__read__\<close>, that is
  \<^verbatim>\<open>_read\<close> of the child view. For a child whose proxy did not exist, \<^verbatim>\<open>values\<close> has
  just read, and the second \<^verbatim>\<open>_read\<close> finds the versions equal and changes nothing
  (lemma \<open>TimeseriesView_read_again\<close>); the model leaves it out.

  Two results of the model stand for situations the code cannot be in. With no child view
  at all \<^verbatim>\<open>sum\<close> returns the integer \<open>0\<close>, written \<open>IntArray [0]\<close> here; the constructor never
  builds an empty list (lemma \<open>tv_get_data_views_not_Nil\<close>). A proxy without an array
  (\<open>tv_timeseries\<close> with \<open>tv_data = None\<close>) does not arise, the proxy being created from
  \<^verbatim>\<open>_data\<close>; the model answers \<open>DanglingReference\<close>.
\<close>

fun TimeseriesView_get_values ::
    "resampler \<Rightarrow> real list Parameter \<Rightarrow> TimeseriesView \<Rightarrow> (error + ndarray) \<times> TimeseriesView"
  and TimeseriesView_read ::
    "resampler \<Rightarrow> real list Parameter \<Rightarrow> TimeseriesView \<Rightarrow> (error + unit) \<times> TimeseriesView"
  and TimeseriesView_values ::
    "resampler \<Rightarrow> real list Parameter \<Rightarrow> TimeseriesView \<Rightarrow> (error + ndarray) \<times> TimeseriesView"
  and sum_child_values ::
    "resampler \<Rightarrow> real list Parameter \<Rightarrow> ndarray option \<Rightarrow> TimeseriesView list
      \<Rightarrow> (error + ndarray) \<times> TimeseriesView list" where
  "TimeseriesView_get_values K store (TimeseriesView cls pth uc tc d ver ts cdv) =
     (case lookup store pth of
        None \<Rightarrow> (Inl DanglingReference, TimeseriesView cls pth uc tc d ver ts cdv)
      | Some p \<Rightarrow>
          if children p \<noteq> []
          then (case cdv of
                  None \<Rightarrow> (Inl AttributeError, TimeseriesView cls pth uc tc d ver ts cdv)
                | Some vs \<Rightarrow>
                    (case sum_child_values K store None vs of
                       (r, vs') \<Rightarrow> (r, TimeseriesView cls pth uc tc d ver ts (Some vs'))))
          else if ParameterView_empty p
          then (Inl ParameterEmptyError, TimeseriesView cls pth uc tc d ver ts cdv)
          else (case data p of
                  None \<Rightarrow> (Inl TypeError, TimeseriesView cls pth uc tc d ver ts cdv)
                | Some xs \<Rightarrow>
                    (map_sum id FloatArray
                       (TimeseriesConverter_convert_from K tc
                          (map (UnitConverter_convert_from uc) xs)),
                     TimeseriesView cls pth uc tc d ver ts cdv)))"
| "TimeseriesView_read K store (TimeseriesView cls pth uc tc d ver ts cdv) =
     (case lookup store pth of
        None \<Rightarrow> (Inl DanglingReference, TimeseriesView cls pth uc tc d ver ts cdv)
      | Some p \<Rightarrow>
          (case d of
             None \<Rightarrow>
               (case TimeseriesView_get_values K store (TimeseriesView cls pth uc tc d ver ts cdv) of
                  (Inl e, view') \<Rightarrow> (Inl e, view')
                | (Inr new, view') \<Rightarrow> (Inr (), set_cache (Some new) (Some (version p)) view'))
           | Some old \<Rightarrow>
               (case ver of
                  None \<Rightarrow> (Inl AttributeError, TimeseriesView cls pth uc tc d ver ts cdv)
                | Some held \<Rightarrow>
                    if held \<noteq> version p
                    then (case TimeseriesView_get_values K store
                                 (TimeseriesView cls pth uc tc d ver ts cdv) of
                            (Inl e, view') \<Rightarrow> (Inl e, view')
                          | (Inr new, view') \<Rightarrow>
                              (case copyto old new of
                                 Inl e \<Rightarrow> (Inl e, view')
                               | Inr new' \<Rightarrow>
                                   (Inr (), set_cache (Some new') (Some (version p)) view')))
                    else (Inr (), TimeseriesView cls pth uc tc d (Some (version p)) ts cdv))))"
| "TimeseriesView_values K store (TimeseriesView cls pth uc tc d ver ts cdv) =
     (if \<not> ts
      then (case TimeseriesView_read K store (TimeseriesView cls pth uc tc d ver ts cdv) of
              (Inl e, view') \<Rightarrow> (Inl e, view')
            | (Inr _, view') \<Rightarrow>
                (case tv_data view' of
                   None \<Rightarrow> (Inl DanglingReference, view')
                 | Some a \<Rightarrow> (Inr a, set_timeseries True view')))
      else (case d of
              None \<Rightarrow> (Inl DanglingReference, TimeseriesView cls pth uc tc d ver ts cdv)
            | Some a \<Rightarrow> (Inr a, TimeseriesView cls pth uc tc d ver ts cdv)))"
| "sum_child_values K store acc [] =
     (Inr (case acc of None \<Rightarrow> IntArray [0] | Some a \<Rightarrow> a), [])"
| "sum_child_values K store acc (c # cs) =
     (case acc of
        None \<Rightarrow>
          (case TimeseriesView_values K store c of
             (Inl e, c') \<Rightarrow> (Inl e, c' # cs)
           | (Inr a, c') \<Rightarrow>
               (case sum_child_values K store (Some a) cs of (r, cs') \<Rightarrow> (r, c' # cs')))
      | Some a \<Rightarrow>
          (case (if tv_timeseries c
                 then (case TimeseriesView_read K store c of
                         (Inl e, c') \<Rightarrow> (Inl e, c')
                       | (Inr _, c') \<Rightarrow>
                           (case tv_data c' of
                              None \<Rightarrow> (Inl DanglingReference, c')
                            | Some b \<Rightarrow> (Inr b, c')))
                 else TimeseriesView_values K store c) of
             (Inl e, c') \<Rightarrow> (Inl e, c' # cs)
           | (Inr b, c') \<Rightarrow>
               (case broadcast_add a b of
                  Inl e \<Rightarrow> (Inl e, c' # cs)
                | Inr s \<Rightarrow>
                    (case sum_child_values K store (Some s) cs of (r, cs') \<Rightarrow> (r, c' # cs')))))"

text \<open>
  \<^verbatim>\<open>_write\<close>: \<^verbatim>\<open>TimeseriesView._write\<close> is \<^verbatim>\<open>raise NotImplementedError\<close>;
  \<^verbatim>\<open>WritableTimeseriesView._write\<close> stores the converted cache in the parameter, adds
  one to the parameter's version and takes the new version as the view's own. The
  conversion of a cache that is \<open>None\<close> is arithmetic on \<open>None\<close>, a \<^verbatim>\<open>TypeError\<close>.
\<close>

definition TimeseriesView_write ::
    "resampler \<Rightarrow> real list Parameter \<Rightarrow> TimeseriesView
      \<Rightarrow> (error + unit) \<times> real list Parameter \<times> TimeseriesView" where
  "TimeseriesView_write K store view =
     (case tv_class view of
        TimeseriesViewClass \<Rightarrow> (Inl NotImplementedError, store, view)
      | WritableTimeseriesViewClass \<Rightarrow>
          (case lookup store (tv_parameter view) of
             None \<Rightarrow> (Inl DanglingReference, store, view)
           | Some p \<Rightarrow>
               (case tv_data view of
                  None \<Rightarrow> (Inl TypeError, store, view)
                | Some a \<Rightarrow>
                    (case TimeseriesConverter_convert_to K (tv_timeseries_converter view)
                            (map (UnitConverter_convert_to (tv_unit_converter view))
                               (as_float a)) of
                       Inl e \<Rightarrow> (Inl e, store, view)
                     | Inr new \<Rightarrow>
                         (Inr (),
                          update_at (\<lambda>q. set_version (version q + 1) (set_data (Some new) q))
                            (tv_parameter view) store,
                          set_cache (Some a) (Some (version p + 1)) view)))))"

text \<open>
  \<^verbatim>\<open>WritableTimeseriesView.values\<close> (setter). The read-only class has no setter: the
  assignment is an \<^verbatim>\<open>AttributeError\<close> there.
\<close>

definition WritableTimeseriesView_values_set ::
    "resampler \<Rightarrow> real list Parameter \<Rightarrow> TimeseriesView \<Rightarrow> ndarray
      \<Rightarrow> (error + unit) \<times> real list Parameter \<times> TimeseriesView" where
  "WritableTimeseriesView_values_set K store view v =
     (if tv_class view = TimeseriesViewClass then (Inl AttributeError, store, view)
      else if array_len v \<noteq> target_length (tv_timeseries_converter view)
      then (Inl TimeseriesPointsValuesMismatchError, store, view)
      else (case tv_data view of
              None \<Rightarrow>
                TimeseriesView_write K store
                  (set_timeseries True (set_cache (Some v) (tv_version view) view))
            | Some old \<Rightarrow>
                (case copyto old v of
                   Inl e \<Rightarrow> (Inl e, store, view)
                 | Inr new \<Rightarrow>
                     TimeseriesView_write K store (set_cache (Some new) (tv_version view) view))))"

subsection \<open>The proxy _Timeseries\<close>

text \<open>
  The methods of the proxy that the view hands out, for an integer key.
  \<^verbatim>\<open>__setitem__\<close>: \<^verbatim>\<open>self._ndarray[key] = val\<close>, then \<^verbatim>\<open>self.__write__()\<close>, which calls
  \<^verbatim>\<open>_write\<close> of the view. \<^verbatim>\<open>__getitem__\<close>: \<^verbatim>\<open>self.__read__()\<close>, which calls \<^verbatim>\<open>_read\<close> of
  the view, then \<^verbatim>\<open>self._ndarray[item]\<close>, the item as the number it is.
  \<^verbatim>\<open>__array__\<close>: \<^verbatim>\<open>np.asarray(self._ndarray)\<close>, with no read. A method of a proxy that was never handed out is answered with
  \<open>DanglingReference\<close>.
\<close>

definition Timeseries_setitem ::
    "resampler \<Rightarrow> real list Parameter \<Rightarrow> TimeseriesView \<Rightarrow> int \<Rightarrow> real
      \<Rightarrow> (error + unit) \<times> real list Parameter \<times> TimeseriesView" where
  "Timeseries_setitem K store view key val =
     (if \<not> tv_timeseries view then (Inl DanglingReference, store, view)
      else (case tv_data view of
              None \<Rightarrow> (Inl DanglingReference, store, view)
            | Some a \<Rightarrow>
                (case index a key of
                   Inl e \<Rightarrow> (Inl e, store, view)
                 | Inr j \<Rightarrow>
                     TimeseriesView_write K store
                       (set_cache (Some (array_set a j val)) (tv_version view) view))))"

definition Timeseries_getitem ::
    "resampler \<Rightarrow> real list Parameter \<Rightarrow> TimeseriesView \<Rightarrow> int
      \<Rightarrow> (error + real) \<times> TimeseriesView" where
  "Timeseries_getitem K store view key =
     (if \<not> tv_timeseries view then (Inl DanglingReference, view)
      else (case TimeseriesView_read K store view of
              (Inl e, view') \<Rightarrow> (Inl e, view')
            | (Inr _, view') \<Rightarrow>
                (case tv_data view' of
                   None \<Rightarrow> (Inl DanglingReference, view')
                 | Some a \<Rightarrow>
                     (case index a key of
                        Inl e \<Rightarrow> (Inl e, view')
                      | Inr j \<Rightarrow> (Inr (as_float a ! j), view')))))"

definition Timeseries_array :: "TimeseriesView \<Rightarrow> ndarray option" where
  "Timeseries_array view = (if tv_timeseries view then tv_data view else None)"

subsection \<open>Reading a leaf, as the aggregation is specified\<close>


subsection \<open>Example objects\<close>

text \<open>
  A small unit registry (equal units convert by the identity, kilogram and gram by the
  factor 1000), the resampler for equal grids, and a timeseries parameter on the grid
  \<open>[0, 1, 2]\<close> with views in its own unit: \<open>example_view\<close> on the parameter's grid,
  \<open>shifted_view\<close> a writable view on the grid \<open>[1, 2, 3]\<close>. \<open>example_converter\<close>
  has a target point outside its source, \<open>constant_converter\<close> has equal grids and
  CONSTANT extrapolation.
\<close>

definition example_registry :: registry where
  "example_registry u v =
     (if u = v then Some (1, 0)
      else if u = ''kg'' \<and> v = ''g'' then Some (1000, 0)
      else if u = ''g'' \<and> v = ''kg'' then Some (1 / 1000, 0)
      else None)"

definition example_resampler :: resampler where
  "example_resampler tc src tgt vs = vs"



definition example_unit_converter :: UnitConverter where
  "example_unit_converter = \<lparr>source = ''A'', target = ''A'', scaling = 1, offset = 0\<rparr>"

definition example_grid_converter :: TimeseriesConverter where
  "example_grid_converter =
     \<lparr>tc_source = [0, 1, 2], tc_target = [0, 1, 2], tc_timeseries_type = POINT_TIMESERIES,
      tc_interpolation_type = InterpolationType_LINEAR,
      tc_extrapolation_type = ExtrapolationType_NONE\<rparr>"

definition example_series :: "real list option \<Rightarrow> int \<Rightarrow> bool \<Rightarrow> real list Parameter" where
  "example_series d v w = Parameter ''example'' ''A'' d v w [0, 1, 2] []"

definition example_view :: "ViewClass \<Rightarrow> ndarray option \<Rightarrow> int option \<Rightarrow> bool \<Rightarrow> TimeseriesView" where
  "example_view cls d ver ts =
     TimeseriesView cls [] example_unit_converter example_grid_converter d ver ts None"

definition shifted_view :: TimeseriesView where
  "shifted_view =
     TimeseriesView WritableTimeseriesViewClass [] example_unit_converter
       \<lparr>tc_source = [0, 1, 2], tc_target = [1, 2, 3], tc_timeseries_type = POINT_TIMESERIES,
        tc_interpolation_type = InterpolationType_LINEAR,
        tc_extrapolation_type = ExtrapolationType_NONE\<rparr>
       None None False None"

text \<open>
  The parameters of the test \<^verbatim>\<open>test_scalar_parameter_view_aggregation\<close>: \<open>Top\<close> with
  the children \<open>a\<close> (itself with the children \<open>1\<close> and \<open>2\<close>) and \<open>b\<close>, all
  dimensionless. The paths are \<open>[]\<close> for \<open>(Top)\<close>, \<open>[0]\<close> for \<open>(Top, a)\<close>,
  \<open>[0, 0]\<close> and \<open>[0, 1]\<close> for \<open>(Top, a, 1)\<close> and \<open>(Top, a, 2)\<close>, \<open>[1]\<close> for
  \<open>(Top, b)\<close>. \<open>top_store w d1 d2 d3\<close> is the tree in which the three leaves hold the
  data \<open>d1\<close>, \<open>d2\<close>, \<open>d3\<close> and have the flag \<^verbatim>\<open>has_been_written_to\<close> equal to \<open>w\<close>;
  the two inner nodes are never marked.
  \<open>scalar_assign\<close> and \<open>scalar_read\<close> construct a view and use it at once, as the
  test does with \<^verbatim>\<open>parameterset.scalar(name, unit).value\<close>.
\<close>

definition scalar_assign ::
    "registry \<Rightarrow> real Parameter \<Rightarrow> path \<Rightarrow> string \<Rightarrow> real \<Rightarrow> error + real Parameter" where
  "scalar_assign reg store pth u v =
     (case ScalarView_init reg store pth u of
        Inl e \<Rightarrow> Inl e
      | Inr view \<Rightarrow>
          (case WritableScalarView_value_set store view v of
             (Inl e, _) \<Rightarrow> Inl e
           | (Inr _, store') \<Rightarrow> Inr store'))"

definition scalar_read :: "registry \<Rightarrow> real Parameter \<Rightarrow> path \<Rightarrow> string \<Rightarrow> error + real" where
  "scalar_read reg store pth u =
     (case ScalarView_init reg store pth u of
        Inl e \<Rightarrow> Inl e
      | Inr view \<Rightarrow> ScalarView_value store view)"

definition top_store ::
    "bool \<Rightarrow> real option \<Rightarrow> real option \<Rightarrow> real option \<Rightarrow> real Parameter" where
  "top_store w d1 d2 d3 =
     Parameter ''Top'' ''dimensionless'' None 0 False []
       [Parameter ''a'' ''dimensionless'' None 0 False []
          [Parameter ''1'' ''dimensionless'' d1 0 w [] [],
           Parameter ''2'' ''dimensionless'' d2 0 w [] []],
        Parameter ''b'' ''dimensionless'' d3 0 w [] []]"

definition dimensionless_converter :: UnitConverter where
  "dimensionless_converter =
     \<lparr>source = ''dimensionless'', target = ''dimensionless'', scaling = 1, offset = 0\<rparr>"


definition example_scalar :: "real option \<Rightarrow> int \<Rightarrow> bool \<Rightarrow> real Parameter" where
  "example_scalar d v w = Parameter ''example'' ''g'' d v w [] []"

definition example_generic :: "string option \<Rightarrow> int \<Rightarrow> bool \<Rightarrow> string Parameter" where
  "example_generic d v w = Parameter ''Generic Option'' ''undefined'' d v w [] []"

definition a_view :: ScalarView where
  "a_view =
     ScalarView [0] dimensionless_converter
       (Some [ScalarView [0, 0] dimensionless_converter None,
              ScalarView [0, 1] dimensionless_converter None])"

definition gram_view :: ScalarView where
  "gram_view = ScalarView [] \<lparr>source = ''g'', target = ''g'', scaling = 1, offset = 0\<rparr> None"


section \<open>Properties\<close>

subsection \<open>Field updates and paths\<close>

lemma children_set_data [simp]: "children (set_data d p) = children p"
  by (cases p) simp
lemma children_set_version [simp]: "children (set_version v p) = children p"
  by (cases p) simp
lemma children_set_children [simp]: "children (set_children cs p) = cs"
  by (cases p) simp
lemma data_set_data [simp]: "data (set_data d p) = d"
  by (cases p) simp
lemma data_set_version [simp]: "data (set_version v p) = data p"
  by (cases p) simp
lemma version_set_version [simp]: "version (set_version v p) = v"
  by (cases p) simp
lemma version_set_data [simp]: "version (set_data d p) = version p"
  by (cases p) simp
lemma written_set_data [simp]: "has_been_written_to (set_data d p) = has_been_written_to p"
  by (cases p) simp
lemma written_set_version [simp]: "has_been_written_to (set_version v p) = has_been_written_to p"
  by (cases p) simp
lemma written_set_children [simp]: "has_been_written_to (set_children cs p) = has_been_written_to p"
  by (cases p) simp

lemma lookup_update_at_same:
  "lookup store pth = Some p \<Longrightarrow> lookup (update_at f pth store) pth = Some (f p)"
proof (induction pth arbitrary: store)
  case Nil
  then show ?case by simp
next
  case (Cons i rest)
  then show ?case by (auto split: if_splits)
qed

lemma tv_class_set_cache [simp]: "tv_class (set_cache d ver view) = tv_class view"
  by (cases view) simp
lemma tv_parameter_set_cache [simp]: "tv_parameter (set_cache d ver view) = tv_parameter view"
  by (cases view) simp
lemma tv_uc_set_cache [simp]: "tv_unit_converter (set_cache d ver view) = tv_unit_converter view"
  by (cases view) simp
lemma tv_tc_set_cache [simp]:
  "tv_timeseries_converter (set_cache d ver view) = tv_timeseries_converter view"
  by (cases view) simp
lemma tv_data_set_cache [simp]: "tv_data (set_cache d ver view) = d"
  by (cases view) simp
lemma tv_version_set_cache [simp]: "tv_version (set_cache d ver view) = ver"
  by (cases view) simp
lemma tv_timeseries_set_cache [simp]: "tv_timeseries (set_cache d ver view) = tv_timeseries view"
  by (cases view) simp
lemma tv_class_set_timeseries [simp]: "tv_class (set_timeseries b view) = tv_class view"
  by (cases view) simp
lemma tv_parameter_set_timeseries [simp]: "tv_parameter (set_timeseries b view) = tv_parameter view"
  by (cases view) simp
lemma tv_uc_set_timeseries [simp]:
  "tv_unit_converter (set_timeseries b view) = tv_unit_converter view"
  by (cases view) simp
lemma tv_tc_set_timeseries [simp]:
  "tv_timeseries_converter (set_timeseries b view) = tv_timeseries_converter view"
  by (cases view) simp
lemma tv_data_set_timeseries [simp]: "tv_data (set_timeseries b view) = tv_data view"
  by (cases view) simp
lemma tv_version_set_timeseries [simp]: "tv_version (set_timeseries b view) = tv_version view"
  by (cases view) simp
lemma tv_timeseries_set_timeseries [simp]: "tv_timeseries (set_timeseries b view) = b"
  by (cases view) simp

lemma get_values_class:
  "tv_class (snd (TimeseriesView_get_values K store view)) = tv_class view"
  by (cases view) (simp split: option.splits prod.splits)

lemma read_class:
  "tv_class (snd (TimeseriesView_read K store view)) = tv_class view"
proof (cases view)
  case (TimeseriesView cls pth uc tc d ver ts cdv)
  have g: "\<And>r v'. TimeseriesView_get_values K store view = (r, v') \<Longrightarrow> tv_class v' = cls"
    using get_values_class [of K store view] TimeseriesView by simp
  show ?thesis
    unfolding TimeseriesView TimeseriesView_read.simps
    using g [unfolded TimeseriesView]
    by (auto split: option.splits prod.splits sum.splits)
qed

lemma values_result:
  assumes "TimeseriesView_values K store view0 = (Inr a, view)"
  shows "tv_timeseries view \<and> tv_data view = Some a \<and> tv_class view = tv_class view0"
proof (cases view0)
  case (TimeseriesView cls pth uc tc d ver ts cdv)
  have c: "\<And>r v'. TimeseriesView_read K store view0 = (r, v') \<Longrightarrow> tv_class v' = cls"
    using read_class [of K store view0] TimeseriesView by simp
  show ?thesis
    using assms c unfolding TimeseriesView TimeseriesView_values.simps
    by (auto split: if_splits option.splits prod.splits sum.splits)
qed

lemma example_view_init:
  "TimeseriesView_init example_registry cls (example_series d v w) [] ''A'' [0, 1, 2]
     POINT_TIMESERIES InterpolationType_LINEAR ExtrapolationType_NONE =
   Inr (example_view cls None None False)"
  by (simp add: TimeseriesView_init_def example_series_def example_view_def
      UnitConverter_init_def example_registry_def example_unit_converter_def
      example_grid_converter_def)

lemma shifted_view_init:
  "TimeseriesView_init example_registry WritableTimeseriesViewClass (example_series d v w) []
     ''A'' [1, 2, 3] POINT_TIMESERIES InterpolationType_LINEAR ExtrapolationType_NONE =
   Inr shifted_view"
  by (simp add: TimeseriesView_init_def example_series_def shifted_view_def
      UnitConverter_init_def example_registry_def example_unit_converter_def)

lemma copyto_takes:
  assumes "array_len old = array_len v" and "is_float old \<or> \<not> is_float v"
  shows "\<exists>a. copyto old v = Inr a \<and> as_float a = as_float v"
  using assms by (cases old; cases v) (simp_all add: broadcast_to_def)

lemma example_convert [simp]:
  "TimeseriesConverter_convert_to example_resampler example_grid_converter [a, b, c] = Inr [a, b, c]"
  "TimeseriesConverter_convert_from example_resampler example_grid_converter [a, b, c] = Inr [a, b, c]"
  by (simp_all add: TimeseriesConverter_convert_to_def TimeseriesConverter_convert_from_def
      TimeseriesConverter_convert_def too_short_def outside_source_def example_grid_converter_def
      example_resampler_def)

lemma example_unit [simp]:
  "UnitConverter_convert_to example_unit_converter x = x"
  "UnitConverter_convert_from example_unit_converter x = x"
  by (simp_all add: UnitConverter_convert_to_def UnitConverter_convert_from_def
      example_unit_converter_def)

subsection \<open>Insufficient data in the timeseries converter\<close>




subsection \<open>The setter of WritableTimeseriesView.values\<close>

text \<open>
  C7, as amended. For a writable timeseries view, assigning a sequence whose length
  differs from the converter's \<^verbatim>\<open>target_length\<close> raises
  \<^verbatim>\<open>TimeseriesPointsValuesMismatchError\<close>. When the lengths agree, the view first takes
  the values into its cache (a view that already has a cache copies them into it, which
  is stated here for a cache of the target length that is a float array or is assigned
  integers). Then the values are converted back in unit and time grid: if the conversion
  succeeds, the parameter holds the converted values, its version is one higher and the
  view holds that version; if the conversion raises, the error is the assignment's, and
  the parameter tree, hence the parameter's data and version, is unchanged.
\<close>

theorem values_set_spec:
  assumes "tv_class view = WritableTimeseriesViewClass"
    and "lookup store (tv_parameter view) = Some p"
    and "\<forall>old. tv_data view = Some old \<longrightarrow>
           array_len old = target_length (tv_timeseries_converter view) \<and>
           (is_float old \<or> \<not> is_float v)"
  shows "(array_len v \<noteq> target_length (tv_timeseries_converter view) \<longrightarrow>
            fst (WritableTimeseriesView_values_set K store view v) =
              Inl TimeseriesPointsValuesMismatchError) \<and>
         (array_len v = target_length (tv_timeseries_converter view) \<longrightarrow>
            (\<forall>new. TimeseriesConverter_convert_to K (tv_timeseries_converter view)
                    (map (UnitConverter_convert_to (tv_unit_converter view)) (as_float v)) =
                    Inr new \<longrightarrow>
               (\<exists>store' view' p' a.
                  WritableTimeseriesView_values_set K store view v = (Inr (), store', view') \<and>
                  tv_data view' = Some a \<and> as_float a = as_float v \<and>
                  tv_version view' = Some (version p + 1) \<and>
                  lookup store' (tv_parameter view) = Some p' \<and>
                  data p' = Some new \<and>
                  version p' = version p + 1)) \<and>
            (\<forall>e. TimeseriesConverter_convert_to K (tv_timeseries_converter view)
                    (map (UnitConverter_convert_to (tv_unit_converter view)) (as_float v)) =
                    Inl e \<longrightarrow>
               (\<exists>view' a.
                  WritableTimeseriesView_values_set K store view v = (Inl e, store, view') \<and>
                  tv_data view' = Some a \<and> as_float a = as_float v)))"
proof (intro conjI impI allI)
  assume "array_len v \<noteq> target_length (tv_timeseries_converter view)"
  with assms(1) show "fst (WritableTimeseriesView_values_set K store view v) =
              Inl TimeseriesPointsValuesMismatchError"
    by (simp add: WritableTimeseriesView_values_set_def)
next
  fix new
  assume len: "array_len v = target_length (tv_timeseries_converter view)"
    and conv: "TimeseriesConverter_convert_to K (tv_timeseries_converter view)
                 (map (UnitConverter_convert_to (tv_unit_converter view)) (as_float v)) = Inr new"
  let ?f = "\<lambda>q. set_version (version q + 1) (set_data (Some new) q)"
  have look: "lookup (update_at ?f (tv_parameter view) store) (tv_parameter view) = Some (?f p)"
    by (rule lookup_update_at_same [OF assms(2)])
  show "\<exists>store' view' p' a.
          WritableTimeseriesView_values_set K store view v = (Inr (), store', view') \<and>
          tv_data view' = Some a \<and> as_float a = as_float v \<and>
          tv_version view' = Some (version p + 1) \<and>
          lookup store' (tv_parameter view) = Some p' \<and> data p' = Some new \<and>
          version p' = version p + 1"
  proof (cases "tv_data view")
    case None
    then show ?thesis
      using assms(1,2) len conv look
      by (simp add: WritableTimeseriesView_values_set_def TimeseriesView_write_def)
  next
    case (Some old)
    with assms(3) len obtain a where a: "copyto old v = Inr a" "as_float a = as_float v"
      using copyto_takes [of old v] by auto
    with Some show ?thesis
      using assms(1,2) len conv look
      by (simp add: WritableTimeseriesView_values_set_def TimeseriesView_write_def)
  qed
next
  fix e
  assume len: "array_len v = target_length (tv_timeseries_converter view)"
    and conv: "TimeseriesConverter_convert_to K (tv_timeseries_converter view)
                 (map (UnitConverter_convert_to (tv_unit_converter view)) (as_float v)) = Inl e"
  show "\<exists>view' a.
          WritableTimeseriesView_values_set K store view v = (Inl e, store, view') \<and>
          tv_data view' = Some a \<and> as_float a = as_float v"
  proof (cases "tv_data view")
    case None
    then show ?thesis
      using assms(1,2) len conv
      by (simp add: WritableTimeseriesView_values_set_def TimeseriesView_write_def)
  next
    case (Some old)
    with assms(3) len obtain a where a: "copyto old v = Inr a" "as_float a = as_float v"
      using copyto_takes [of old v] by auto
    with Some show ?thesis
      using assms(1,2) len conv
      by (simp add: WritableTimeseriesView_values_set_def TimeseriesView_write_def)
  qed
qed

theorem values_set_spec_witness:
  "tv_class (example_view WritableTimeseriesViewClass None None False) = WritableTimeseriesViewClass \<and>
   lookup (example_series None 0 True)
     (tv_parameter (example_view WritableTimeseriesViewClass None None False)) =
     Some (example_series None 0 True) \<and>
   tv_data (example_view WritableTimeseriesViewClass None None False) = None \<and>
   array_len (FloatArray [4, 5, 6]) =
     target_length (tv_timeseries_converter (example_view WritableTimeseriesViewClass None None False)) \<and>
   WritableTimeseriesView_values_set example_resampler (example_series None 0 True)
     (example_view WritableTimeseriesViewClass None None False) (FloatArray [4, 5, 6]) =
   (Inr (), example_series (Some [4, 5, 6]) 1 True,
    example_view WritableTimeseriesViewClass (Some (FloatArray [4, 5, 6])) (Some 1) True)"
proof -
  let ?view = "example_view WritableTimeseriesViewClass None None False"
  let ?store = "example_series None 0 True"
  have c: "tv_class ?view = WritableTimeseriesViewClass"
    by (simp add: example_view_def)
  have p: "lookup ?store (tv_parameter ?view) = Some ?store"
    by (simp add: example_view_def)
  have d: "\<forall>old. tv_data ?view = Some old \<longrightarrow>
      array_len old = target_length (tv_timeseries_converter ?view) \<and>
      (is_float old \<or> \<not> is_float (FloatArray [4, 5, 6]))"
    by (simp add: example_view_def)
  have l: "array_len (FloatArray [4, 5, 6]) = target_length (tv_timeseries_converter ?view)"
    by (simp add: example_view_def target_length_def example_grid_converter_def)
  have conv: "TimeseriesConverter_convert_to example_resampler (tv_timeseries_converter ?view)
      (map (UnitConverter_convert_to (tv_unit_converter ?view)) (as_float (FloatArray [4, 5, 6]))) =
      Inr [4, 5, 6]"
    by (simp add: example_view_def)
  from values_set_spec [OF c p d, of example_resampler] l conv
  obtain store' view' where
    r: "WritableTimeseriesView_values_set example_resampler ?store ?view (FloatArray [4, 5, 6]) =
          (Inr (), store', view')"
    by blast
  have "WritableTimeseriesView_values_set example_resampler ?store ?view (FloatArray [4, 5, 6]) =
     (Inr (), example_series (Some [4, 5, 6]) 1 True,
      example_view WritableTimeseriesViewClass (Some (FloatArray [4, 5, 6])) (Some 1) True)"
    by (simp add: WritableTimeseriesView_values_set_def TimeseriesView_write_def example_view_def
        example_series_def target_length_def example_grid_converter_def [symmetric])
       (simp add: example_grid_converter_def)
  with c p l r show ?thesis by (simp add: example_view_def)
qed

text \<open>
  The claim as stated fails: a writable view on the grid \<open>[1, 2, 3]\<close> of a parameter on
  the grid \<open>[0, 1, 2]\<close>, with NONE extrapolation, is assigned three values, as many as
  its \<^verbatim>\<open>target_length\<close>. The conversion back raises \<^verbatim>\<open>InsufficientDataError\<close> (the
  parameter's first time point lies before the view's grid): nothing is written into
  the parameter and its version stays \<open>0\<close>, while the view already holds the values.
  A second failure of the unamended claim is in the copy into an existing cache:
  floats assigned after integers are a \<^verbatim>\<open>TypeError\<close> of \<^verbatim>\<open>np.copyto\<close>.
\<close>

theorem values_set_counterexample:
  "tv_class shifted_view = WritableTimeseriesViewClass \<and>
   array_len (FloatArray [4, 5, 6]) = target_length (tv_timeseries_converter shifted_view) \<and>
   WritableTimeseriesView_values_set example_resampler (example_series None 0 True) shifted_view
     (FloatArray [4, 5, 6]) =
   (Inl InsufficientDataError, example_series None 0 True,
    set_timeseries True (set_cache (Some (FloatArray [4, 5, 6])) None shifted_view)) \<and>
   fst (WritableTimeseriesView_values_set example_resampler (example_series (Some [1, 2, 3]) 1 True)
     (example_view WritableTimeseriesViewClass (Some (IntArray [1, 2, 3])) (Some 1) True)
     (FloatArray [4, 5, 6])) = Inl TypeError"
  by (simp add: WritableTimeseriesView_values_set_def TimeseriesView_write_def shifted_view_def
      example_view_def example_series_def target_length_def TimeseriesConverter_convert_to_def
      TimeseriesConverter_convert_def too_short_def outside_source_def
      example_grid_converter_def)

text \<open>
  C9. When the setter is called with a sequence of the wrong length, it returns the error
  with the parameter tree and the view exactly as they were: the parameter's data and
  version and the view's cache are unchanged.
\<close>

theorem values_set_mismatch_unchanged:
  assumes "tv_class view = WritableTimeseriesViewClass"
    and "array_len v \<noteq> target_length (tv_timeseries_converter view)"
  shows "WritableTimeseriesView_values_set K store view v =
           (Inl TimeseriesPointsValuesMismatchError, store, view)"
  using assms by (simp add: WritableTimeseriesView_values_set_def)

theorem values_set_mismatch_unchanged_witness:
  "tv_class (example_view WritableTimeseriesViewClass None None False) = WritableTimeseriesViewClass \<and>
   array_len (FloatArray [1, 2]) \<noteq>
     target_length (tv_timeseries_converter (example_view WritableTimeseriesViewClass None None False)) \<and>
   WritableTimeseriesView_values_set example_resampler (example_series None 0 True)
     (example_view WritableTimeseriesViewClass None None False) (FloatArray [1, 2]) =
   (Inl TimeseriesPointsValuesMismatchError, example_series None 0 True,
    example_view WritableTimeseriesViewClass None None False)"
proof -
  have c: "tv_class (example_view WritableTimeseriesViewClass None None False) =
      WritableTimeseriesViewClass"
    by (simp add: example_view_def)
  have l: "array_len (FloatArray [1, 2]) \<noteq>
     target_length (tv_timeseries_converter (example_view WritableTimeseriesViewClass None None False))"
    by (simp add: example_view_def target_length_def example_grid_converter_def)
  show ?thesis
    using c l values_set_mismatch_unchanged [OF c l, of example_resampler "example_series None 0 True"]
    by simp
qed

subsection \<open>Item assignment through a read-only timeseries view\<close>

text \<open>
  C10. For a read-only timeseries view, assigning an item (at an index of the array)
  through the proxy that \<^verbatim>\<open>values\<close> returned raises \<^verbatim>\<open>NotImplementedError\<close>; the
  parameter tree, hence the parameter's data and version, is unchanged, while the view's
  cached array already holds the assigned item.
\<close>

theorem readonly_setitem_not_implemented:
  assumes "tv_class view0 = TimeseriesViewClass"
    and "TimeseriesView_values K store view0 = (Inr a, view)"
    and "index a key = Inr j"
  shows "Timeseries_setitem K store view key val =
           (Inl NotImplementedError, store,
            set_cache (Some (array_set a j val)) (tv_version view) view)"
  using values_result [OF assms(2)] assms(1,3)
  by (simp add: Timeseries_setitem_def TimeseriesView_write_def)

theorem readonly_setitem_not_implemented_witness:
  "tv_class (example_view TimeseriesViewClass None None False) = TimeseriesViewClass \<and>
   TimeseriesView_values example_resampler (example_series (Some [1, 2, 3]) 1 True)
     (example_view TimeseriesViewClass None None False) =
     (Inr (FloatArray [1, 2, 3]), example_view TimeseriesViewClass (Some (FloatArray [1, 2, 3])) (Some 1) True) \<and>
   index (FloatArray [1, 2, 3]) 0 = Inr 0 \<and>
   Timeseries_setitem example_resampler (example_series (Some [1, 2, 3]) 1 True)
     (example_view TimeseriesViewClass (Some (FloatArray [1, 2, 3])) (Some 1) True) 0 9 =
   (Inl NotImplementedError, example_series (Some [1, 2, 3]) 1 True,
    example_view TimeseriesViewClass (Some (FloatArray [9, 2, 3])) (Some 1) True)"
proof -
  let ?store = "example_series (Some [1, 2, 3]) 1 True"
  have c: "tv_class (example_view TimeseriesViewClass None None False) = TimeseriesViewClass"
    by (simp add: example_view_def)
  have v: "TimeseriesView_values example_resampler ?store
     (example_view TimeseriesViewClass None None False) =
     (Inr (FloatArray [1, 2, 3]), example_view TimeseriesViewClass (Some (FloatArray [1, 2, 3])) (Some 1) True)"
    by (simp add: example_view_def example_series_def ParameterView_empty_def)
  have i: "index (FloatArray [1, 2, 3]) 0 = Inr 0"
    by (simp add: index_def)
  show ?thesis
    using c v i readonly_setitem_not_implemented [OF c v i, of 9]
    by (simp add: example_view_def)
qed

subsection \<open>What the model leaves out, justified\<close>

text \<open>
  The constructor gives a view with children at least one child view, and a \<^verbatim>\<open>_read\<close>
  right after a successful \<^verbatim>\<open>_read\<close> changes nothing.
\<close>

lemma tv_get_data_views_not_Nil:
  "tv_get_data_views reg tgt tps ty it et pth (p :: 'd Parameter) = Inr vs \<Longrightarrow> vs \<noteq> []"
  and tv_get_data_views_list_not_Nil:
  "tv_get_data_views_list reg tgt tps ty it et pth i (cs :: 'd Parameter list) = Inr vs \<Longrightarrow>
     cs \<noteq> [] \<Longrightarrow> vs \<noteq> []"
proof (induction reg tgt tps ty it et pth p and reg tgt tps ty it et pth i cs
    arbitrary: vs and vs rule: tv_get_data_views_tv_get_data_views_list.induct)
  case (1 reg tgt tps ty it et pth n u d v w t cs)
  then show ?case by (auto split: if_splits sum.splits)
next
  case (2 reg tgt tps ty it et pth i)
  then show ?case by simp
next
  case (3 reg tgt tps ty it et pth i c cs)
  then show ?case by (auto split: sum.splits)
qed

lemma get_values_parameter:
  "tv_parameter (snd (TimeseriesView_get_values K store view)) = tv_parameter view"
  by (cases view) (simp split: option.splits prod.splits)

lemma read_in_sync:
  assumes "lookup store (tv_parameter view) = Some p"
    and "tv_data view = Some a"
    and "tv_version view = Some (version p)"
  shows "TimeseriesView_read K store view = (Inr (), view)"
  using assms by (cases view) simp

lemma read_result:
  assumes "TimeseriesView_read K store view = (Inr u, view')"
  shows "\<exists>p a. lookup store (tv_parameter view') = Some p \<and> tv_data view' = Some a \<and>
           tv_version view' = Some (version p)"
proof -
  have "fst (TimeseriesView_read K store view) = Inr u \<longrightarrow>
          (\<exists>p a. lookup store (tv_parameter (snd (TimeseriesView_read K store view))) = Some p \<and>
             tv_data (snd (TimeseriesView_read K store view)) = Some a \<and>
             tv_version (snd (TimeseriesView_read K store view)) = Some (version p))"
  proof (cases view)
    case (TimeseriesView cls pth uc tc d ver ts cdv)
    show ?thesis
      unfolding TimeseriesView TimeseriesView_read.simps
      using get_values_parameter [of K store "TimeseriesView cls pth uc tc d ver ts cdv"]
      by (auto split: option.splits prod.splits sum.splits if_splits)
  qed
  with assms show ?thesis by simp
qed

lemma TimeseriesView_read_again:
  assumes "TimeseriesView_read K store view = (Inr u, view')"
  shows "TimeseriesView_read K store view' = (Inr (), view')"
proof -
  from read_result [OF assms] obtain p a where
    "lookup store (tv_parameter view') = Some p" "tv_data view' = Some a"
    "tv_version view' = Some (version p)"
    by blast
  then show ?thesis by (rule read_in_sync)
qed

subsection \<open>Aggregated scalar reads\<close>


lemma written_update_at_below:
  "has_been_written_to (update_at f (i # q) p) = has_been_written_to p"
  by simp












lemma a_view_init:
  "ScalarView_init example_registry (top_store w d1 d2 d3) [0] ''dimensionless'' = Inr a_view"
  by (simp add: ScalarView_init_def top_store_def a_view_def UnitConverter_init_def
      example_registry_def dimensionless_converter_def)

lemma gram_view_init:
  "ScalarView_init example_registry (example_scalar d v w) [] ''g'' = Inr gram_view"
  by (simp add: ScalarView_init_def example_scalar_def gram_view_def UnitConverter_init_def
      example_registry_def)

text \<open>
  C3 (the code departs from the claim). The aggregation itself is as claimed: lemma
  \<open>aggregate_value\<close> shows that a view constructed over a node with children reads the
  sum, over the leaf descendants in depth-first order, of the converted leaf values, when
  every leaf is marked as written to and holds a value. But the writes of the claim's
  scenario do not bring the leaves into that state: starting from the parameters
  \<open>(Top, a, 1)\<close>, \<open>(Top, a, 2)\<close> and \<open>(Top, b)\<close> that have not been written to, the
  three assignments through writable views succeed and store \<open>a1\<close>, \<open>a2\<close> and \<open>b\<close>,
  and reading \<open>(Top, a)\<close> or \<open>(Top)\<close> then raises \<^verbatim>\<open>ParameterEmptyError\<close>, where the
  claim and the test \<^verbatim>\<open>test_scalar_parameter_view_aggregation\<close> have \<open>a1 + a2\<close> and
  \<open>a1 + a2 + b\<close>. These sums are what the same reads give once the leaves carry the
  mark, which no setter sets.
\<close>

theorem aggregation_after_writes_raises:
  "scalar_assign example_registry (top_store False None None None) [0, 0] ''dimensionless'' a1 =
     Inr (top_store False (Some a1) None None) \<and>
   scalar_assign example_registry (top_store False (Some a1) None None) [0, 1] ''dimensionless'' a2 =
     Inr (top_store False (Some a1) (Some a2) None) \<and>
   scalar_assign example_registry (top_store False (Some a1) (Some a2) None) [1] ''dimensionless'' b =
     Inr (top_store False (Some a1) (Some a2) (Some b)) \<and>
   scalar_read example_registry (top_store False (Some a1) (Some a2) (Some b)) [0]
     ''dimensionless'' = Inl ParameterEmptyError \<and>
   scalar_read example_registry (top_store False (Some a1) (Some a2) (Some b)) []
     ''dimensionless'' = Inl ParameterEmptyError \<and>
   scalar_read example_registry (top_store True (Some a1) (Some a2) (Some b)) [0]
     ''dimensionless'' = Inr (a1 + a2) \<and>
   scalar_read example_registry (top_store True (Some a1) (Some a2) (Some b)) []
     ''dimensionless'' = Inr (a1 + a2 + b)"
  by (simp add: scalar_assign_def scalar_read_def ScalarView_init_def
      WritableScalarView_value_set_def top_store_def UnitConverter_init_def example_registry_def
      UnitConverter_convert_to_def UnitConverter_convert_from_def ParameterView_empty_def)

subsection \<open>The property empty\<close>



subsection \<open>What the setters leave undone\<close>

text \<open>
  C1 (the code departs from the claim). The setter of \<^verbatim>\<open>WritableScalarView.value\<close> is
  the single assignment to \<^verbatim>\<open>data\<close>: it neither calls \<^verbatim>\<open>attempt_write\<close> nor looks at
  the children. On the view over \<open>(Top, a)\<close>, a node with two children, assigning \<open>0\<close>
  succeeds and stores \<open>0\<close> on that node, where the claim and the test
  \<^verbatim>\<open>test_scalar_parameter_view_aggregation\<close> have \<^verbatim>\<open>ParameterReadonlyError\<close>.
\<close>

theorem aggregate_assignment_stores:
  "ScalarView_init example_registry (top_store True (Some 1) (Some 2) (Some 3)) [0] ''dimensionless'' =
     Inr a_view \<and>
   map_option children (lookup (top_store True (Some 1) (Some 2) (Some 3)) (sv_parameter a_view)) =
     Some [Parameter ''1'' ''dimensionless'' (Some 1) 0 True [] [],
           Parameter ''2'' ''dimensionless'' (Some 2) 0 True [] []] \<and>
   fst (WritableScalarView_value_set (top_store True (Some 1) (Some 2) (Some 3)) a_view 0) = Inr () \<and>
   map_option data
     (lookup (snd (WritableScalarView_value_set (top_store True (Some 1) (Some 2) (Some 3)) a_view 0))
        (sv_parameter a_view)) = Some (Some 0)"
  using a_view_init [of True "Some 1" "Some 2" "Some 3"]
  by (simp add: WritableScalarView_value_set_def a_view_def top_store_def
      UnitConverter_convert_to_def dimensionless_converter_def)

text \<open>
  C2 (the code departs from the claim). A write through a scalar or a generic view leaves
  the parameter's version as it was: after two successive scalar writes it is still \<open>0\<close>,
  where the claim and the test \<^verbatim>\<open>test_version\<close> have \<open>1\<close> and \<open>2\<close>. Only the
  write of the timeseries view adds one.
\<close>

theorem scalar_and_generic_writes_keep_version:
  "WritableScalarView_value_set (example_scalar None 0 True) gram_view 3 =
     (Inr (), example_scalar (Some 3) 0 True) \<and>
   WritableScalarView_value_set (example_scalar (Some 3) 0 True) gram_view 12 =
     (Inr (), example_scalar (Some 12) 0 True) \<and>
   WritableGenericView_value_set (example_generic None 0 True) (GenericView []) (Some ''enabled'') =
     (Inr (), example_generic (Some ''enabled'') 0 True) \<and>
   WritableTimeseriesView_values_set example_resampler (example_series None 0 True)
     (example_view WritableTimeseriesViewClass None None False) (FloatArray [4, 5, 6]) =
     (Inr (), example_series (Some [4, 5, 6]) 1 True,
      example_view WritableTimeseriesViewClass (Some (FloatArray [4, 5, 6])) (Some 1) True)"
  by (simp add: WritableScalarView_value_set_def WritableGenericView_value_set_def
      example_scalar_def example_generic_def gram_view_def UnitConverter_convert_to_def
      WritableTimeseriesView_values_set_def TimeseriesView_write_def example_view_def
      example_series_def target_length_def example_grid_converter_def [symmetric])
     (simp add: example_grid_converter_def example_unit_converter_def)

text \<open>
  C5 (the code departs from the claim). Reading a childless parameter that has not been
  written to raises \<^verbatim>\<open>ParameterEmptyError\<close> through each kind of view, as claimed. But
  no setter marks the parameter as written to: after a successful write through a scalar,
  a generic or a timeseries view, a read through a view of the same parameter still raises
  \<^verbatim>\<open>ParameterEmptyError\<close>.
\<close>

theorem written_parameter_still_empty:
  "ScalarView_value (example_scalar None 0 False) gram_view = Inl ParameterEmptyError \<and>
   WritableScalarView_value_set (example_scalar None 0 False) gram_view 3 =
     (Inr (), example_scalar (Some 3) 0 False) \<and>
   ScalarView_value (example_scalar (Some 3) 0 False) gram_view = Inl ParameterEmptyError \<and>
   GenericView_value (example_generic None 0 False) (GenericView []) = Inl ParameterEmptyError \<and>
   WritableGenericView_value_set (example_generic None 0 False) (GenericView []) (Some ''enabled'') =
     (Inr (), example_generic (Some ''enabled'') 0 False) \<and>
   GenericView_value (example_generic (Some ''enabled'') 0 False) (GenericView []) =
     Inl ParameterEmptyError \<and>
   fst (TimeseriesView_values example_resampler (example_series None 0 False)
     (example_view TimeseriesViewClass None None False)) = Inl ParameterEmptyError \<and>
   WritableTimeseriesView_values_set example_resampler (example_series None 0 False)
     (example_view WritableTimeseriesViewClass None None False) (FloatArray [4, 5, 6]) =
     (Inr (), example_series (Some [4, 5, 6]) 1 False,
      example_view WritableTimeseriesViewClass (Some (FloatArray [4, 5, 6])) (Some 1) True) \<and>
   fst (TimeseriesView_values example_resampler (example_series (Some [4, 5, 6]) 1 False)
     (example_view TimeseriesViewClass None None False)) = Inl ParameterEmptyError"
  by (simp add: WritableScalarView_value_set_def WritableGenericView_value_set_def
      GenericView_value_def ParameterView_empty_def
      example_scalar_def example_generic_def gram_view_def UnitConverter_convert_to_def
      WritableTimeseriesView_values_set_def TimeseriesView_write_def example_view_def
      example_series_def target_length_def example_grid_converter_def [symmetric])
     (simp add: example_grid_converter_def example_unit_converter_def)

subsection \<open>The cache of a timeseries view\<close>

text \<open>
  C4 (the code departs from the claim). The getter \<^verbatim>\<open>values\<close> calls \<^verbatim>\<open>_read\<close> only
  while the view has no proxy yet. A writer assigns \<open>[1, 2, 3]\<close>, a read-only view of the
  same parameter reads it, the writer assigns \<open>[4, 5, 6]\<close>: the next \<^verbatim>\<open>values\<close> of the
  read-only view returns the proxy with the array \<open>[1, 2, 3]\<close>, which is also what
  \<^verbatim>\<open>__array__\<close> hands out, while recomputing from the parameter gives \<open>[4, 5, 6]\<close>. The
  version held by the view (1) differs from the parameter's (2) all along; an item
  access, which goes through \<^verbatim>\<open>_read\<close>, brings the cache up to date.
\<close>

theorem cached_values_stale:
  "WritableTimeseriesView_values_set example_resampler (example_series None 0 True)
     (example_view WritableTimeseriesViewClass None None False) (FloatArray [1, 2, 3]) =
     (Inr (), example_series (Some [1, 2, 3]) 1 True,
      example_view WritableTimeseriesViewClass (Some (FloatArray [1, 2, 3])) (Some 1) True) \<and>
   TimeseriesView_values example_resampler (example_series (Some [1, 2, 3]) 1 True)
     (example_view TimeseriesViewClass None None False) =
     (Inr (FloatArray [1, 2, 3]), example_view TimeseriesViewClass (Some (FloatArray [1, 2, 3])) (Some 1) True) \<and>
   WritableTimeseriesView_values_set example_resampler (example_series (Some [1, 2, 3]) 1 True)
     (example_view WritableTimeseriesViewClass (Some (FloatArray [1, 2, 3])) (Some 1) True) (FloatArray [4, 5, 6]) =
     (Inr (), example_series (Some [4, 5, 6]) 2 True,
      example_view WritableTimeseriesViewClass (Some (FloatArray [4, 5, 6])) (Some 2) True) \<and>
   TimeseriesView_values example_resampler (example_series (Some [4, 5, 6]) 2 True)
     (example_view TimeseriesViewClass (Some (FloatArray [1, 2, 3])) (Some 1) True) =
     (Inr (FloatArray [1, 2, 3]), example_view TimeseriesViewClass (Some (FloatArray [1, 2, 3])) (Some 1) True) \<and>
   Timeseries_array (example_view TimeseriesViewClass (Some (FloatArray [1, 2, 3])) (Some 1) True) =
     Some (FloatArray [1, 2, 3]) \<and>
   fst (TimeseriesView_get_values example_resampler (example_series (Some [4, 5, 6]) 2 True)
     (example_view TimeseriesViewClass (Some (FloatArray [1, 2, 3])) (Some 1) True)) = Inr (FloatArray [4, 5, 6]) \<and>
   Timeseries_getitem example_resampler (example_series (Some [4, 5, 6]) 2 True)
     (example_view TimeseriesViewClass (Some (FloatArray [1, 2, 3])) (Some 1) True) 0 =
     (Inr 4, example_view TimeseriesViewClass (Some (FloatArray [4, 5, 6])) (Some 2) True)"
  by (simp add: WritableTimeseriesView_values_set_def TimeseriesView_write_def example_view_def
      example_series_def target_length_def Timeseries_array_def Timeseries_getitem_def
      ParameterView_empty_def broadcast_to_def index_def
      example_grid_converter_def [symmetric])
     (simp add: example_grid_converter_def)

end
